theory Spec2Isabelle
  imports Main
begin

section \<open>Plasma GNOME Screenshot Bridge: a model of bridge.py\<close>

text \<open>
  The bridge shells out to screenshot tools, logs through the \<open>logging\<close> module and
  talks to the session bus. None of that is pure, so every operation of the model takes
  the trace of what has happened so far (oldest event first) and returns the trace
  extended by what it did. The things the program cannot decide by itself (which
  executables exist, how a spawned tool exits, whether a library call raises) are the
  fields of a \<open>world\<close>, and every theorem holds for all worlds.
\<close>

subsection \<open>Exceptions, log records, events\<close>

text \<open>
  \<open>Exception msg\<close> stands for an instance of Python's class \<open>Exception\<close> (or of a
  subclass) whose \<open>str\<close> is \<open>msg\<close>: what \<open>except Exception\<close> catches.
  \<open>CancelledError\<close> is \<open>asyncio.CancelledError\<close>, which derives from
  \<open>BaseException\<close> and passes through \<open>except Exception\<close>.
\<close>

datatype exn = Exception string | CancelledError

datatype level = DEBUG | INFO | WARNING | ERROR

datatype event =
    Log level string
  | Run "string list"
  | Spawn "string list"
  | CreateTask
  | TaskCancel
  | TaskAwait
  | ProcTerminate
  | ProcWait
  | BusCreate
  | BusConnect
  | BusExport string
  | BusRequestName string
  | BusDisconnect

text \<open>
  \<open>subprocess.run(argv, capture_output=True)\<close> either returns a completed process
  with a return code or raises (\<open>OSError\<close> when the program cannot be spawned,
  \<open>ValueError\<close> on a malformed argument): all of them instances of \<open>Exception\<close>.
\<close>

datatype completed = Returncode int | Raises string

record world =
  which :: "string \<Rightarrow> bool"
  subprocess_run :: "string list \<Rightarrow> completed"
  lib_raises :: "event list \<Rightarrow> event \<Rightarrow> exn option"

text \<open>
  \<open>which w name\<close>: \<open>shutil.which(name)\<close> is not \<open>None\<close>.
  \<open>lib_raises w tr ev\<close>: whether the call \<open>ev\<close> into asyncio or dbus_next, made after
  the events \<open>tr\<close>, raises, and what.
\<close>

definition logger :: "level \<Rightarrow> string \<Rightarrow> event list \<Rightarrow> event list" where
  "logger lvl msg tr = tr @ [Log lvl msg]"

definition call :: "world \<Rightarrow> event \<Rightarrow> event list \<Rightarrow> exn option \<times> event list" where
  "call w ev tr = (lib_raises w tr ev, tr @ [ev])"

subsection \<open>Formatting: what an f-string prints\<close>

definition str_bool :: "bool \<Rightarrow> string" where
  "str_bool b = (if b then ''True'' else ''False'')"

definition digit :: "nat \<Rightarrow> char" where
  "digit d = ''0123456789'' ! d"

function str_nat :: "nat \<Rightarrow> string" where
  "str_nat n = (if n < 10 then [digit n] else str_nat (n div 10) @ [digit (n mod 10)])"
  by pat_completeness auto
termination
  by (relation "measure id") auto

declare str_nat.simps [simp del]

definition str_int :: "int \<Rightarrow> string" where
  "str_int i = (if i < 0 then ''-'' @ str_nat (nat (- i)) else str_nat (nat i))"

fun str_exn :: "exn \<Rightarrow> string" where
  "str_exn (Exception msg) = msg"
| "str_exn CancelledError = ''''"

definition apostrophe :: string where
  "apostrophe = [CHR 0x27]"

subsection \<open>The backends\<close>

datatype backend = SpectacleBackend | GrimBackend | GnomeScreenshotBackend

fun name :: "backend \<Rightarrow> string" where
  "name SpectacleBackend = ''spectacle''"
| "name GrimBackend = ''grim''"
| "name GnomeScreenshotBackend = ''gnome-screenshot''"

fun is_available :: "world \<Rightarrow> backend \<Rightarrow> bool" where
  "is_available w SpectacleBackend = which w ''spectacle''"
| "is_available w GrimBackend = which w ''grim''"
| "is_available w GnomeScreenshotBackend = which w ''gnome-screenshot''"

text \<open>
  The last two lines of every native capture:
  \<open>result = subprocess.run(cmd, capture_output=True); return result.returncode == 0\<close>.
\<close>

definition run_cmd :: "world \<Rightarrow> string list \<Rightarrow> event list \<Rightarrow> (exn + bool) \<times> event list" where
  "run_cmd w cmd tr =
     (case subprocess_run w cmd of
        Raises msg \<Rightarrow> (Inl (Exception msg), tr @ [Run cmd])
      | Returncode rc \<Rightarrow> (Inr (rc = 0), tr @ [Run cmd]))"

fun capture_full :: "world \<Rightarrow> backend \<Rightarrow> string \<Rightarrow> bool \<Rightarrow> event list \<Rightarrow> (exn + bool) \<times> event list" where
  "capture_full w SpectacleBackend filename include_cursor tr =
     run_cmd w ([''spectacle'', ''-b'', ''-n'', ''-f'', ''-o'', filename]
                @ (if include_cursor then [''-p''] else [])) tr"
| "capture_full w GrimBackend filename include_cursor tr =
     run_cmd w ([''grim''] @ (if include_cursor then [''-c''] else []) @ [filename]) tr"
| "capture_full w GnomeScreenshotBackend filename include_cursor tr =
     run_cmd w ([''gnome-screenshot'', ''-f'', filename]
                @ (if include_cursor then [''-p''] else [])) tr"

fun capture_area ::
  "world \<Rightarrow> backend \<Rightarrow> string \<Rightarrow> int \<Rightarrow> int \<Rightarrow> int \<Rightarrow> int \<Rightarrow> event list \<Rightarrow> (exn + bool) \<times> event list" where
  "capture_area w SpectacleBackend filename x y width height tr =
     capture_full w SpectacleBackend filename False
       (logger WARNING (''Spectacle doesn't support coordinate-based area capture, ''
                        @ ''capturing full screen instead'') tr)"
| "capture_area w GrimBackend filename x y width height tr =
     run_cmd w [''grim'', ''-g'',
                str_int x @ '','' @ str_int y @ '' '' @ str_int width @ ''x'' @ str_int height,
                filename] tr"
| "capture_area w GnomeScreenshotBackend filename x y width height tr =
     capture_full w GnomeScreenshotBackend filename False tr"

fun capture_window ::
  "world \<Rightarrow> backend \<Rightarrow> string \<Rightarrow> bool \<Rightarrow> bool \<Rightarrow> event list \<Rightarrow> (exn + bool) \<times> event list" where
  "capture_window w SpectacleBackend filename include_cursor include_decorations tr =
     run_cmd w ([''spectacle'', ''-b'', ''-n'', ''-a'', ''-o'', filename]
                @ (if include_cursor then [''-p''] else [])
                @ (if \<not> include_decorations then [''-e''] else [])) tr"
| "capture_window w GrimBackend filename include_cursor include_decorations tr =
     capture_full w GrimBackend filename include_cursor
       (logger WARNING ''Grim doesn't support window capture, capturing full screen'' tr)"
| "capture_window w GnomeScreenshotBackend filename include_cursor include_decorations tr =
     run_cmd w ([''gnome-screenshot'', ''-w'', ''-f'', filename]
                @ (if include_cursor then [''-p''] else [])
                @ (if \<not> include_decorations then [''-B''] else [])) tr"

subsection \<open>Detection\<close>

definition BACKENDS :: "backend list" where
  "BACKENDS = [SpectacleBackend, GrimBackend, GnomeScreenshotBackend]"

text \<open>
  The first loop of \<open>detect_backend\<close>: it stops at the first entry whose name is the
  preferred one, returns it when it is available and otherwise warns and breaks.
  \<open>Some b\<close> is the \<open>return\<close> inside the loop; \<open>None\<close> is leaving the loop.
\<close>

fun preferred_loop :: "world \<Rightarrow> string \<Rightarrow> backend list \<Rightarrow> event list \<Rightarrow> backend option \<times> event list" where
  "preferred_loop w preferred [] tr = (None, tr)"
| "preferred_loop w preferred (backend_cls # rest) tr =
     (if name backend_cls = preferred then
        (if is_available w backend_cls
         then (Some backend_cls, logger INFO (''Using preferred backend: '' @ name backend_cls) tr)
         else (None, logger WARNING (''Preferred backend '' @ apostrophe @ preferred @ apostrophe
                                     @ '' not available'') tr))
      else preferred_loop w preferred rest tr)"

text \<open>The second loop: the first available entry, in list order.\<close>

fun auto_loop :: "world \<Rightarrow> backend list \<Rightarrow> event list \<Rightarrow> backend option \<times> event list" where
  "auto_loop w [] tr = (None, tr)"
| "auto_loop w (backend_cls # rest) tr =
     (if is_available w backend_cls
      then (Some backend_cls, logger INFO (''Auto-detected backend: '' @ name backend_cls) tr)
      else auto_loop w rest tr)"

text \<open>
  \<open>if preferred:\<close> is false for \<open>None\<close> and for the empty string alike.
\<close>

definition detect_backend_in ::
  "backend list \<Rightarrow> world \<Rightarrow> string option \<Rightarrow> event list \<Rightarrow> backend option \<times> event list" where
  "detect_backend_in backends w preferred tr =
     (case preferred of
        None \<Rightarrow> auto_loop w backends tr
      | Some p \<Rightarrow>
          if p = [] then auto_loop w backends tr
          else (case preferred_loop w p backends tr of
                  (Some b, tr') \<Rightarrow> (Some b, tr')
                | (None, tr') \<Rightarrow> auto_loop w backends tr'))"

definition detect_backend :: "world \<Rightarrow> string option \<Rightarrow> event list \<Rightarrow> backend option \<times> event list" where
  "detect_backend = detect_backend_in BACKENDS"

subsection \<open>The screenshot interface\<close>

record screenshot_interface =
  backend :: backend
  warn_before :: bool

definition ScreenshotInterface :: "backend \<Rightarrow> bool \<Rightarrow> screenshot_interface" where
  "ScreenshotInterface b wb = \<lparr>backend = b, warn_before = wb\<rparr>"

text \<open>
  \<open>_maybe_warn\<close> runs notify-send inside \<open>try ... except Exception: pass\<close>: whatever
  the run does, the method goes on.
\<close>

definition notify_cmd :: "string list" where
  "notify_cmd = [''notify-send'', ''-u'', ''normal'', ''-t'', ''2000'',
                 ''Screenshot'', ''A screenshot will be taken...'']"

definition maybe_warn :: "world \<Rightarrow> screenshot_interface \<Rightarrow> event list \<Rightarrow> event list" where
  "maybe_warn w self tr =
     (if warn_before self then
        (case subprocess_run w notify_cmd of
           Raises msg \<Rightarrow> tr @ [Run notify_cmd]
         | Returncode rc \<Rightarrow> tr @ [Run notify_cmd])
      else tr)"

definition saved_or_failed :: "bool \<Rightarrow> string" where
  "saved_or_failed success = (if success then ''saved'' else ''failed'')"

text \<open>
  The three methods return \<open>Inr (success, filename)\<close> for the list
  \<open>[success, filename]\<close>, and \<open>Inl e\<close> when \<open>e\<close> leaves the method. \<open>flash\<close> is a
  parameter of each, as in the source.
\<close>

definition Screenshot ::
  "world \<Rightarrow> screenshot_interface \<Rightarrow> bool \<Rightarrow> bool \<Rightarrow> string \<Rightarrow> event list
     \<Rightarrow> (exn + bool \<times> string) \<times> event list" where
  "Screenshot w self include_cursor flash filename tr =
     (let tr1 = logger INFO (''Screenshot requested: cursor='' @ str_bool include_cursor
                             @ '', file='' @ filename) tr;
          tr2 = maybe_warn w self tr1
      in case capture_full w (backend self) filename include_cursor tr2 of
           (Inr success, tr3) \<Rightarrow>
             (Inr (success, filename),
              logger INFO (''Screenshot '' @ saved_or_failed success @ '': '' @ filename) tr3)
         | (Inl (Exception msg), tr3) \<Rightarrow>
             (Inr (False, filename), logger ERROR (''Screenshot error: '' @ msg) tr3)
         | (Inl CancelledError, tr3) \<Rightarrow> (Inl CancelledError, tr3))"

definition ScreenshotWindow ::
  "world \<Rightarrow> screenshot_interface \<Rightarrow> bool \<Rightarrow> bool \<Rightarrow> bool \<Rightarrow> string \<Rightarrow> event list
     \<Rightarrow> (exn + bool \<times> string) \<times> event list" where
  "ScreenshotWindow w self include_frame include_cursor flash filename tr =
     (let tr1 = logger INFO (''Window screenshot requested: file='' @ filename) tr;
          tr2 = maybe_warn w self tr1
      in case capture_window w (backend self) filename include_cursor include_frame tr2 of
           (Inr success, tr3) \<Rightarrow>
             (Inr (success, filename),
              logger INFO (''Window screenshot '' @ saved_or_failed success @ '': '' @ filename) tr3)
         | (Inl (Exception msg), tr3) \<Rightarrow>
             (Inr (False, filename), logger ERROR (''Window screenshot error: '' @ msg) tr3)
         | (Inl CancelledError, tr3) \<Rightarrow> (Inl CancelledError, tr3))"

definition ScreenshotArea ::
  "world \<Rightarrow> screenshot_interface \<Rightarrow> int \<Rightarrow> int \<Rightarrow> int \<Rightarrow> int \<Rightarrow> bool \<Rightarrow> string \<Rightarrow> event list
     \<Rightarrow> (exn + bool \<times> string) \<times> event list" where
  "ScreenshotArea w self x y width height flash filename tr =
     (let tr1 = logger INFO (''Area screenshot requested: ('' @ str_int x @ '','' @ str_int y
                             @ '') '' @ str_int width @ ''x'' @ str_int height) tr;
          tr2 = maybe_warn w self tr1
      in case capture_area w (backend self) filename x y width height tr2 of
           (Inr success, tr3) \<Rightarrow>
             (Inr (success, filename),
              logger INFO (''Area screenshot '' @ saved_or_failed success @ '': '' @ filename) tr3)
         | (Inl (Exception msg), tr3) \<Rightarrow>
             (Inr (False, filename), logger ERROR (''Area screenshot error: '' @ msg) tr3)
         | (Inl CancelledError, tr3) \<Rightarrow> (Inl CancelledError, tr3))"

subsection \<open>The idle monitor\<close>

datatype process = Process (has_stdout: bool)

datatype task = Task

record idle_monitor_interface =
  last_active :: int
  monitor_process :: "process option"
  monitor_task :: "task option"

text \<open>The constructor reads the clock once; \<open>now\<close> is that reading.\<close>

definition IdleMonitorInterface :: "int \<Rightarrow> idle_monitor_interface" where
  "IdleMonitorInterface now = \<lparr>last_active = now, monitor_process = None, monitor_task = None\<rparr>"

definition swayidle_argv :: "string list" where
  "swayidle_argv = [''swayidle'', ''-w'', ''timeout'', ''1'', ''echo timeout'',
                    ''resume'', ''echo resume'']"

definition no_idle_monitor ::
  "idle_monitor_interface \<Rightarrow> event list \<Rightarrow> (exn + bool) \<times> idle_monitor_interface \<times> event list" where
  "no_idle_monitor self tr =
     (Inr False, self,
      logger WARNING ''No idle monitor available, idle time will not be tracked'' tr)"

definition start_monitoring ::
  "world \<Rightarrow> idle_monitor_interface \<Rightarrow> event list
     \<Rightarrow> (exn + bool) \<times> idle_monitor_interface \<times> event list" where
  "start_monitoring w self tr =
     (if which w ''swayidle'' then
        (case call w (Spawn swayidle_argv) tr of
           (Some CancelledError, tr1) \<Rightarrow> (Inl CancelledError, self, tr1)
         | (Some (Exception msg), tr1) \<Rightarrow>
             no_idle_monitor self (logger DEBUG (''Failed to start swayidle: '' @ msg) tr1)
         | (None, tr1) \<Rightarrow>
             (let self1 = self\<lparr>monitor_process := Some (Process True)\<rparr>
              in case call w CreateTask tr1 of
                   (Some CancelledError, tr2) \<Rightarrow> (Inl CancelledError, self1, tr2)
                 | (Some (Exception msg), tr2) \<Rightarrow>
                     no_idle_monitor self1 (logger DEBUG (''Failed to start swayidle: '' @ msg) tr2)
                 | (None, tr2) \<Rightarrow>
                     (Inr True, self1\<lparr>monitor_task := Some Task\<rparr>,
                      logger INFO ''Started swayidle idle monitor'' tr2)))
      else no_idle_monitor self tr)"

text \<open>
  \<open>stop_monitoring\<close> changes no field of the monitor: the task and the process stay
  where they are after it has cancelled and terminated them.
\<close>

definition stop_task :: "world \<Rightarrow> idle_monitor_interface \<Rightarrow> event list \<Rightarrow> exn option \<times> event list" where
  "stop_task w self tr =
     (case monitor_task self of
        None \<Rightarrow> (None, tr)
      | Some t \<Rightarrow>
          (case call w TaskCancel tr of
             (Some e, tr1) \<Rightarrow> (Some e, tr1)
           | (None, tr1) \<Rightarrow>
               (case call w TaskAwait tr1 of
                  (Some CancelledError, tr2) \<Rightarrow> (None, tr2)
                | (Some (Exception msg), tr2) \<Rightarrow> (Some (Exception msg), tr2)
                | (None, tr2) \<Rightarrow> (None, tr2))))"

definition stop_process :: "world \<Rightarrow> idle_monitor_interface \<Rightarrow> event list \<Rightarrow> exn option \<times> event list" where
  "stop_process w self tr =
     (case monitor_process self of
        None \<Rightarrow> (None, tr)
      | Some p \<Rightarrow>
          (case call w ProcTerminate tr of
             (Some e, tr1) \<Rightarrow> (Some e, tr1)
           | (None, tr1) \<Rightarrow> call w ProcWait tr1))"

definition stop_monitoring :: "world \<Rightarrow> idle_monitor_interface \<Rightarrow> event list \<Rightarrow> exn option \<times> event list" where
  "stop_monitoring w self tr =
     (case stop_task w self tr of
        (Some e, tr1) \<Rightarrow> (Some e, tr1)
      | (None, tr1) \<Rightarrow> stop_process w self tr1)"

subsection \<open>The idle loop\<close>

text \<open>
  A line of the child's output is a byte string (\<open>string\<close>: one \<open>char\<close> per byte).
  \<open>line.decode()\<close> is strict UTF-8 decoding to a list of code points: it rejects stray
  continuation bytes, overlong forms, surrogates and anything above U+10FFFF with a
  \<open>UnicodeDecodeError\<close>. \<open>str.strip()\<close> removes the characters for which
  \<open>str.isspace\<close> holds from both ends.
\<close>

definition continuation :: "nat \<Rightarrow> bool" where
  "continuation b = (0x80 \<le> b \<and> b \<le> 0xBF)"

fun utf8_decode :: "nat list \<Rightarrow> nat list option" where
  "utf8_decode [] = Some []"
| "utf8_decode (b0 # bs) =
     (if b0 < 0x80 then map_option ((#) b0) (utf8_decode bs)
      else if 0xC2 \<le> b0 \<and> b0 \<le> 0xDF then
        (case bs of
           b1 # r \<Rightarrow>
             if continuation b1
             then map_option ((#) ((b0 - 0xC0) * 64 + (b1 - 0x80))) (utf8_decode r)
             else None
         | _ \<Rightarrow> None)
      else if 0xE0 \<le> b0 \<and> b0 \<le> 0xEF then
        (case bs of
           b1 # b2 # r \<Rightarrow>
             if continuation b1 \<and> continuation b2
                \<and> (if b0 = 0xE0 then 0xA0 \<le> b1 else True)
                \<and> (if b0 = 0xED then b1 \<le> 0x9F else True)
             then map_option ((#) ((b0 - 0xE0) * 4096 + (b1 - 0x80) * 64 + (b2 - 0x80)))
                    (utf8_decode r)
             else None
         | _ \<Rightarrow> None)
      else if 0xF0 \<le> b0 \<and> b0 \<le> 0xF4 then
        (case bs of
           b1 # b2 # b3 # r \<Rightarrow>
             if continuation b1 \<and> continuation b2 \<and> continuation b3
                \<and> (if b0 = 0xF0 then 0x90 \<le> b1 else True)
                \<and> (if b0 = 0xF4 then b1 \<le> 0x8F else True)
             then map_option ((#) ((b0 - 0xF0) * 262144 + (b1 - 0x80) * 4096
                                   + (b2 - 0x80) * 64 + (b3 - 0x80)))
                    (utf8_decode r)
             else None
         | _ \<Rightarrow> None)
      else None)"

definition isspace :: "nat \<Rightarrow> bool" where
  "isspace c =
     ((0x09 \<le> c \<and> c \<le> 0x0D) \<or> (0x1C \<le> c \<and> c \<le> 0x20) \<or> c = 0x85 \<or> c = 0xA0
      \<or> c = 0x1680 \<or> (0x2000 \<le> c \<and> c \<le> 0x200A) \<or> c = 0x2028 \<or> c = 0x2029
      \<or> c = 0x202F \<or> c = 0x205F \<or> c = 0x3000)"

definition strip :: "nat list \<Rightarrow> nat list" where
  "strip s = rev (dropWhile isspace (rev (dropWhile isspace s)))"

text \<open>
  \<open>line.decode().strip() == "resume"\<close>. The text of the \<open>UnicodeDecodeError\<close> is
  only ever put into a debug message; the model keeps the name of the class for it.
\<close>

definition line_is_resume :: "string \<Rightarrow> exn + bool" where
  "line_is_resume line =
     (case utf8_decode (map of_char line) of
        None \<Rightarrow> Inl (Exception ''UnicodeDecodeError'')
      | Some txt \<Rightarrow> Inr (strip txt = map of_char ''resume''))"

text \<open>
  The \<open>async for\<close> of \<open>_idle_loop\<close> over the lines the child prints, each paired
  with what the clock shows while the line is handled. An exception inside the loop is
  logged at debug level and ends the loop; the end of the list is the stream closing (or
  the task being cancelled there).
\<close>

fun idle_loop_lines ::
  "(string \<times> int) list \<Rightarrow> idle_monitor_interface \<Rightarrow> event list
     \<Rightarrow> idle_monitor_interface \<times> event list" where
  "idle_loop_lines [] self tr = (self, tr)"
| "idle_loop_lines ((line, now) # rest) self tr =
     (case line_is_resume line of
        Inl e \<Rightarrow> (self, logger DEBUG (''Idle monitor loop error: '' @ str_exn e) tr)
      | Inr True \<Rightarrow> idle_loop_lines rest (self\<lparr>last_active := now\<rparr>) tr
      | Inr False \<Rightarrow> idle_loop_lines rest self tr)"

definition idle_loop ::
  "(string \<times> int) list \<Rightarrow> idle_monitor_interface \<Rightarrow> event list
     \<Rightarrow> idle_monitor_interface \<times> event list" where
  "idle_loop lines self tr =
     (case monitor_process self of
        None \<Rightarrow> (self, tr)
      | Some p \<Rightarrow> if \<not> has_stdout p then (self, tr) else idle_loop_lines lines self tr)"

subsection \<open>The bridge\<close>

datatype message_bus = MessageBus

record screenshot_bridge =
  backend_name :: "string option"
  bridge_warn_before :: bool
  enable_idle :: bool
  bus :: "message_bus option"
  idle_monitor :: "idle_monitor_interface option"
  running :: bool

definition ScreenshotBridge :: "string option \<Rightarrow> bool \<Rightarrow> bool \<Rightarrow> screenshot_bridge" where
  "ScreenshotBridge b wb ei =
     \<lparr>backend_name = b, bridge_warn_before = wb, enable_idle = ei,
      bus = None, idle_monitor = None, running = False\<rparr>"

text \<open>
  \<open>start\<close>, in three pieces: the end (\<open>self._running = True\<close>), the idle block, and the
  whole. \<open>now\<close> is what the clock shows when the idle monitor is constructed. An
  exception of a library call leaves \<open>start\<close> with the fields as they are at that
  point.
\<close>

definition start_finish ::
  "backend \<Rightarrow> screenshot_bridge \<Rightarrow> event list \<Rightarrow> (exn + bool) \<times> screenshot_bridge \<times> event list" where
  "start_finish b self tr =
     (Inr True, self\<lparr>running := True\<rparr>,
      logger INFO (''Bridge started with backend: '' @ name b) tr)"

definition start_idle ::
  "world \<Rightarrow> int \<Rightarrow> backend \<Rightarrow> screenshot_bridge \<Rightarrow> event list
     \<Rightarrow> (exn + bool) \<times> screenshot_bridge \<times> event list" where
  "start_idle w now b self tr =
     (if enable_idle self then
        (case start_monitoring w (IdleMonitorInterface now) tr of
           (Inl e, m, tr1) \<Rightarrow> (Inl e, self\<lparr>idle_monitor := Some m\<rparr>, tr1)
         | (Inr started, m, tr1) \<Rightarrow>
             (let self1 = self\<lparr>idle_monitor := Some m\<rparr>
              in case call w (BusExport ''/org/gnome/Mutter/IdleMonitor/Core'') tr1 of
                   (Some e, tr2) \<Rightarrow> (Inl e, self1, tr2)
                 | (None, tr2) \<Rightarrow>
                     (case call w (BusRequestName ''org.gnome.Mutter.IdleMonitor'') tr2 of
                        (Some e, tr3) \<Rightarrow> (Inl e, self1, tr3)
                      | (None, tr3) \<Rightarrow>
                          start_finish b self1
                            (logger INFO ''Registered org.gnome.Mutter.IdleMonitor'' tr3))))
      else start_finish b self tr)"

definition start ::
  "world \<Rightarrow> int \<Rightarrow> screenshot_bridge \<Rightarrow> event list
     \<Rightarrow> (exn + bool) \<times> screenshot_bridge \<times> event list" where
  "start w now self tr =
     (case detect_backend w (backend_name self) tr of
        (None, tr0) \<Rightarrow>
          (Inr False, self,
           logger ERROR ''Install one of: spectacle (KDE), grim (wlroots)''
             (logger ERROR ''No screenshot backend available!'' tr0))
      | (Some b, tr0) \<Rightarrow>
          (case call w BusCreate tr0 of
             (Some e, tr1) \<Rightarrow> (Inl e, self, tr1)
           | (None, tr1) \<Rightarrow>
               (let self1 = self\<lparr>bus := Some MessageBus\<rparr>
                in case call w BusConnect tr1 of
                     (Some e, tr2) \<Rightarrow> (Inl e, self1, tr2)
                   | (None, tr2) \<Rightarrow>
                       (case call w (BusExport ''/org/gnome/Shell/Screenshot'')
                               (logger INFO ''Connected to DBus session bus'' tr2) of
                          (Some e, tr3) \<Rightarrow> (Inl e, self1, tr3)
                        | (None, tr3) \<Rightarrow>
                            (case call w (BusRequestName ''org.gnome.Shell.Screenshot'') tr3 of
                               (Some e, tr4) \<Rightarrow> (Inl e, self1, tr4)
                             | (None, tr4) \<Rightarrow>
                                 start_idle w now b self1
                                   (logger INFO ''Registered org.gnome.Shell.Screenshot'' tr4))))))"

text \<open>
  \<open>stop\<close> sets \<open>_running\<close> and touches no other field: \<open>self.bus\<close> and
  \<open>self.idle_monitor\<close> are still set when it returns.
\<close>

definition stop_idle :: "world \<Rightarrow> screenshot_bridge \<Rightarrow> event list \<Rightarrow> exn option \<times> event list" where
  "stop_idle w self tr =
     (case idle_monitor self of
        None \<Rightarrow> (None, tr)
      | Some m \<Rightarrow> stop_monitoring w m tr)"

definition stop_bus :: "world \<Rightarrow> screenshot_bridge \<Rightarrow> event list \<Rightarrow> exn option \<times> event list" where
  "stop_bus w self tr =
     (case bus self of
        None \<Rightarrow> (None, tr)
      | Some b \<Rightarrow> call w BusDisconnect tr)"

definition stop ::
  "world \<Rightarrow> screenshot_bridge \<Rightarrow> event list \<Rightarrow> exn option \<times> screenshot_bridge \<times> event list" where
  "stop w self tr =
     (let self1 = self\<lparr>running := False\<rparr>
      in case stop_idle w self1 tr of
           (Some e, tr1) \<Rightarrow> (Some e, self1, tr1)
         | (None, tr1) \<Rightarrow>
             (case stop_bus w self1 tr1 of
                (Some e, tr2) \<Rightarrow> (Some e, self1, tr2)
              | (None, tr2) \<Rightarrow> (None, self1, logger INFO ''Bridge stopped'' tr2)))"

subsection \<open>Example worlds and vocabulary for the theorems\<close>

text \<open>
  \<open>quiet_world\<close>: every tool is installed, every run exits 0, no library call raises.
  \<open>bare_world\<close>: nothing is installed and every run fails to spawn.
\<close>

definition quiet_world :: world where
  "quiet_world = \<lparr>which = (\<lambda>n. True), subprocess_run = (\<lambda>cmd. Returncode 0),
                   lib_raises = (\<lambda>tr ev. None)\<rparr>"

definition bare_world :: world where
  "bare_world = \<lparr>which = (\<lambda>n. False),
                  subprocess_run = (\<lambda>cmd. Raises ''No such file or directory''),
                  lib_raises = (\<lambda>tr ev. None)\<rparr>"

fun is_log :: "event \<Rightarrow> bool" where
  "is_log (Log lvl msg) = True"
| "is_log ev = False"

text \<open>Two lines as swayidle prints them.\<close>

definition resume_line :: string where
  "resume_line = ''resume'' @ [CHR 0x0A]"

definition timeout_line :: string where
  "timeout_line = ''timeout'' @ [CHR 0x0A]"

text \<open>
  What a call of \<open>stop\<close> that returns adds to the trace, read off the fields of the
  bridge: the monitor's task and process calls when there is a monitor that has them,
  the disconnect when there is a bus, and the closing log record.
\<close>

definition teardown_calls :: "screenshot_bridge \<Rightarrow> event list" where
  "teardown_calls self =
     (case idle_monitor self of
        None \<Rightarrow> []
      | Some m \<Rightarrow>
          (if monitor_task m = None then [] else [TaskCancel, TaskAwait])
          @ (if monitor_process m = None then [] else [ProcTerminate, ProcWait]))
     @ (if bus self = None then [] else [BusDisconnect])
     @ [Log INFO ''Bridge stopped'']"

text \<open>
  \<open>noidle_world\<close>: the screenshot tools are installed and swayidle is not; no library
  call raises. \<open>asyncio_world\<close>: everything is installed; awaiting the cancelled task
  raises \<open>CancelledError\<close>, and \<open>terminate()\<close> on a process that has been waited for
  raises \<open>ProcessLookupError\<close>, as asyncio does once the child is reaped.
\<close>

definition noidle_world :: world where
  "noidle_world = \<lparr>which = (\<lambda>n. n \<noteq> ''swayidle''), subprocess_run = (\<lambda>cmd. Returncode 0),
                    lib_raises = (\<lambda>tr ev. None)\<rparr>"

definition asyncio_world :: world where
  "asyncio_world =
     \<lparr>which = (\<lambda>n. True), subprocess_run = (\<lambda>cmd. Returncode 0),
      lib_raises = (\<lambda>tr ev.
        if ev = TaskAwait then Some CancelledError
        else if ev = ProcTerminate \<and> ProcWait \<in> set tr
             then Some (Exception ''ProcessLookupError'')
        else None)\<rparr>"

text \<open>
  Two runs of a fresh bridge with idle tracking: started, stopped, stopped again.
\<close>

definition noidle_started :: "(exn + bool) \<times> screenshot_bridge \<times> event list" where
  "noidle_started = start noidle_world 0 (ScreenshotBridge None False True) []"

definition noidle_stopped_once :: "exn option \<times> screenshot_bridge \<times> event list" where
  "noidle_stopped_once = stop noidle_world (fst (snd noidle_started)) (snd (snd noidle_started))"

definition noidle_stopped_twice :: "exn option \<times> screenshot_bridge \<times> event list" where
  "noidle_stopped_twice =
     stop noidle_world (fst (snd noidle_stopped_once)) (snd (snd noidle_stopped_once))"

definition asyncio_started :: "(exn + bool) \<times> screenshot_bridge \<times> event list" where
  "asyncio_started = start asyncio_world 0 (ScreenshotBridge None False True) []"

definition asyncio_stopped_once :: "exn option \<times> screenshot_bridge \<times> event list" where
  "asyncio_stopped_once = stop asyncio_world (fst (snd asyncio_started)) (snd (snd asyncio_started))"

definition asyncio_stopped_twice :: "exn option \<times> screenshot_bridge \<times> event list" where
  "asyncio_stopped_twice =
     stop asyncio_world (fst (snd asyncio_stopped_once)) (snd (snd asyncio_stopped_once))"

section \<open>Properties\<close>

subsection \<open>Native captures\<close>

lemma run_cmd_fst: "fst (run_cmd w cmd tr) = fst (run_cmd w cmd [])"
  by (simp add: run_cmd_def split: completed.splits)

lemma run_cmd_snd: "snd (run_cmd w cmd tr) = tr @ [Run cmd]"
  by (simp add: run_cmd_def split: completed.splits)

lemma run_cmd_exn: "fst (run_cmd w cmd tr) = Inl e \<Longrightarrow> \<exists>msg. e = Exception msg"
  by (auto simp add: run_cmd_def split: completed.splits)

lemma capture_full_fst: "fst (capture_full w b f c tr) = fst (capture_full w b f c [])"
  by (cases b) (simp_all add: run_cmd_def split: completed.splits)

lemma capture_area_fst:
  "fst (capture_area w b f x y wd h tr) = fst (capture_area w b f x y wd h [])"
  by (cases b) (simp_all add: run_cmd_def split: completed.splits)

lemma capture_window_fst:
  "fst (capture_window w b f c d tr) = fst (capture_window w b f c d [])"
  by (cases b) (simp_all add: run_cmd_def split: completed.splits)

lemma capture_full_exn: "fst (capture_full w b f c tr) = Inl e \<Longrightarrow> \<exists>msg. e = Exception msg"
  by (cases b) (auto dest: run_cmd_exn)

lemma capture_area_exn:
  "fst (capture_area w b f x y wd h tr) = Inl e \<Longrightarrow> \<exists>msg. e = Exception msg"
  by (cases b) (auto dest: run_cmd_exn capture_full_exn)

lemma capture_window_exn:
  "fst (capture_window w b f c d tr) = Inl e \<Longrightarrow> \<exists>msg. e = Exception msg"
  by (cases b) (auto dest: run_cmd_exn capture_full_exn)

lemma str_int_examples:
  "str_int 10 = ''10''" "str_int 20 = ''20''" "str_int 300 = ''300''" "str_int 200 = ''200''"
  by code_simp+

subsection \<open>Degraded captures\<close>

text \<open>
  Spectacle's area capture and Grim's window capture return what \<open>capture_full\<close>
  returns and put one warning into the log before the run.
\<close>

lemma spectacle_capture_area_degrades:
  "fst (capture_area w SpectacleBackend filename x y width height tr)
     = fst (capture_full w SpectacleBackend filename False tr)
   \<and> (\<exists>msg cmd. snd (capture_area w SpectacleBackend filename x y width height tr)
                   = tr @ [Log WARNING msg, Run cmd])"
  by (simp add: run_cmd_def logger_def split: completed.splits)

lemma grim_capture_window_degrades:
  "fst (capture_window w GrimBackend filename include_cursor include_decorations tr)
     = fst (capture_full w GrimBackend filename include_cursor tr)
   \<and> (\<exists>msg cmd. snd (capture_window w GrimBackend filename include_cursor include_decorations tr)
                   = tr @ [Log WARNING msg, Run cmd])"
  by (simp add: run_cmd_def logger_def split: completed.splits)

text \<open>
  C1. A backend that lacks a capture kind returns what \<open>capture_full\<close> returns on the
  same file and logs a warning about the degradation. GnomeScreenshotBackend's area
  capture does the first and not the second: on \<open>capture_area("/tmp/a.png", 10, 20, 300, 200)\<close>
  it is \<open>capture_full("/tmp/a.png")\<close> to the letter, and the only event it adds to the
  trace is the run of the tool, with no log record of any level.
\<close>

theorem gnome_capture_area_no_warning:
  "capture_area w GnomeScreenshotBackend ''/tmp/a.png'' 10 20 300 200 tr
     = capture_full w GnomeScreenshotBackend ''/tmp/a.png'' False tr
   \<and> snd (capture_area w GnomeScreenshotBackend ''/tmp/a.png'' 10 20 300 200 tr)
       = tr @ [Run [''gnome-screenshot'', ''-f'', ''/tmp/a.png'']]"
  by (simp add: run_cmd_snd)

subsection \<open>Detection\<close>

lemma auto_loop_find: "fst (auto_loop w bs tr) = find (is_available w) bs"
  by (induction bs) auto

lemma name_inj: "name a = name b \<Longrightarrow> a = b"
  by (cases a; cases b) simp_all

lemma name_nonempty: "name b \<noteq> []"
  by (cases b) simp_all

lemma preferred_loop_hit:
  "b \<in> set bs \<Longrightarrow> is_available w b \<Longrightarrow> fst (preferred_loop w (name b) bs tr) = Some b"
  by (induction bs) (auto dest: name_inj)

lemma auto_loop_logs:
  "\<exists>logs. snd (auto_loop w bs tr) = tr @ logs \<and> list_all is_log logs"
  by (induction bs) (auto simp: logger_def)

lemma preferred_loop_logs:
  "\<exists>logs. snd (preferred_loop w p bs tr) = tr @ logs \<and> list_all is_log logs"
  by (induction bs) (auto simp: logger_def)

lemma detect_backend_in_logs:
  "\<exists>logs. snd (detect_backend_in bs w p tr) = tr @ logs \<and> list_all is_log logs"
proof (cases "p = None \<or> p = Some []")
  case True
  then show ?thesis
    using auto_loop_logs [of w bs tr] by (auto simp: detect_backend_in_def)
next
  case False
  then obtain q where q: "p = Some q" "q \<noteq> []" by auto
  obtain r tr1 where pl: "preferred_loop w q bs tr = (r, tr1)"
    by (cases "preferred_loop w q bs tr")
  from preferred_loop_logs [of w q bs tr] pl
  obtain l1 where l1: "tr1 = tr @ l1" "list_all is_log l1" by auto
  show ?thesis
  proof (cases r)
    case None
    from auto_loop_logs [of w bs tr1]
    obtain l2 where "snd (auto_loop w bs tr1) = tr1 @ l2" "list_all is_log l2" by auto
    with l1 have "snd (auto_loop w bs tr1) = tr @ (l1 @ l2) \<and> list_all is_log (l1 @ l2)"
      by simp
    with None q pl show ?thesis
      by (auto simp: detect_backend_in_def simp del: append_assoc)
  next
    case (Some b)
    with q pl l1 show ?thesis by (auto simp: detect_backend_in_def)
  qed
qed

text \<open>
  C3. With no preferred name, \<open>detect_backend\<close> returns the first available backend
  in the order spectacle, grim, gnome-screenshot, and it returns nothing exactly when
  none of the three executables is resolvable.
\<close>

theorem detect_backend_auto:
  "fst (detect_backend w None tr)
     = find (is_available w) [SpectacleBackend, GrimBackend, GnomeScreenshotBackend]
   \<and> (fst (detect_backend w None tr) = None \<longleftrightarrow>
        \<not> which w ''spectacle'' \<and> \<not> which w ''grim'' \<and> \<not> which w ''gnome-screenshot'')"
  by (simp add: detect_backend_def detect_backend_in_def BACKENDS_def)

text \<open>
  C8. A preferred name that is the name of an available backend selects that backend,
  wherever it stands: in \<open>BACKENDS\<close>, and in any other list that contains it.
\<close>

theorem detect_backend_preferred:
  "is_available w b \<Longrightarrow>
     fst (detect_backend w (Some (name b)) tr) = Some b \<and>
     (\<forall>backends. b \<in> set backends \<longrightarrow>
        fst (detect_backend_in backends w (Some (name b)) tr) = Some b)"
proof -
  assume av: "is_available w b"
  have gen: "fst (detect_backend_in bs w (Some (name b)) tr) = Some b" if "b \<in> set bs" for bs
  proof -
    from preferred_loop_hit [OF that av, of tr]
    obtain tr' where "preferred_loop w (name b) bs tr = (Some b, tr')"
      by (cases "preferred_loop w (name b) bs tr") auto
    then show ?thesis by (simp add: detect_backend_in_def name_nonempty)
  qed
  have "b \<in> set BACKENDS" by (cases b) (simp_all add: BACKENDS_def)
  with gen show ?thesis by (simp add: detect_backend_def)
qed

theorem detect_backend_preferred_witness:
  "is_available quiet_world GnomeScreenshotBackend \<and>
   fst (detect_backend quiet_world (Some ''gnome-screenshot'') []) = Some GnomeScreenshotBackend \<and>
   fst (detect_backend_in [GnomeScreenshotBackend, SpectacleBackend] quiet_world
          (Some ''gnome-screenshot'') []) = Some GnomeScreenshotBackend"
  using detect_backend_preferred [of quiet_world GnomeScreenshotBackend "[]"]
  by (simp add: quiet_world_def)

subsection \<open>The screenshot interface\<close>

lemma maybe_warn_snd:
  "maybe_warn w self tr = tr @ (if warn_before self then [Run notify_cmd] else [])"
  by (simp add: maybe_warn_def split: completed.splits)

lemma Screenshot_result:
  "fst (Screenshot w self include_cursor flash filename tr)
     = Inr (fst (capture_full w (backend self) filename include_cursor []) = Inr True, filename)"
proof -
  let ?tr = "maybe_warn w self (logger INFO (''Screenshot requested: cursor='' @ str_bool include_cursor
                             @ '', file='' @ filename) tr)"
  obtain r t where c: "capture_full w (backend self) filename include_cursor ?tr = (r, t)"
    by (cases "capture_full w (backend self) filename include_cursor ?tr")
  then have r: "fst (capture_full w (backend self) filename include_cursor []) = r"
    using capture_full_fst [of w "backend self" filename include_cursor ?tr] by simp
  show ?thesis
  proof (cases r)
    case (Inl e)
    with c capture_full_exn [of w "backend self" filename include_cursor ?tr e]
    obtain msg where "e = Exception msg" by auto
    with Inl c r show ?thesis by (simp add: Screenshot_def)
  next
    case (Inr ok)
    with c r show ?thesis by (simp add: Screenshot_def)
  qed
qed

lemma ScreenshotWindow_result:
  "fst (ScreenshotWindow w self include_frame include_cursor flash filename tr)
     = Inr (fst (capture_window w (backend self) filename include_cursor include_frame []) = Inr True,
            filename)"
proof -
  let ?tr = "maybe_warn w self (logger INFO (''Window screenshot requested: file='' @ filename) tr)"
  obtain r t where c: "capture_window w (backend self) filename include_cursor include_frame ?tr = (r, t)"
    by (cases "capture_window w (backend self) filename include_cursor include_frame ?tr")
  then have r: "fst (capture_window w (backend self) filename include_cursor include_frame []) = r"
    using capture_window_fst [of w "backend self" filename include_cursor include_frame ?tr] by simp
  show ?thesis
  proof (cases r)
    case (Inl e)
    with c capture_window_exn [of w "backend self" filename include_cursor include_frame ?tr e]
    obtain msg where "e = Exception msg" by auto
    with Inl c r show ?thesis by (simp add: ScreenshotWindow_def)
  next
    case (Inr ok)
    with c r show ?thesis by (simp add: ScreenshotWindow_def)
  qed
qed

lemma ScreenshotArea_result:
  "fst (ScreenshotArea w self x y width height flash filename tr)
     = Inr (fst (capture_area w (backend self) filename x y width height []) = Inr True, filename)"
proof -
  let ?tr = "maybe_warn w self (logger INFO (''Area screenshot requested: ('' @ str_int x @ '','' @ str_int y
                             @ '') '' @ str_int width @ ''x'' @ str_int height) tr)"
  obtain r t where c: "capture_area w (backend self) filename x y width height ?tr = (r, t)"
    by (cases "capture_area w (backend self) filename x y width height ?tr")
  then have r: "fst (capture_area w (backend self) filename x y width height []) = r"
    using capture_area_fst [of w "backend self" filename x y width height ?tr] by simp
  show ?thesis
  proof (cases r)
    case (Inl e)
    with c capture_area_exn [of w "backend self" filename x y width height ?tr e]
    obtain msg where "e = Exception msg" by auto
    with Inl c r show ?thesis by (simp add: ScreenshotArea_def)
  next
    case (Inr ok)
    with c r show ?thesis by (simp add: ScreenshotArea_def)
  qed
qed

lemma Screenshot_caught:
  assumes "fst (capture_full w (backend self) filename include_cursor tr0) = Inl e"
  shows "last (snd (Screenshot w self include_cursor flash filename tr))
           = Log ERROR (''Screenshot error: '' @ str_exn e)"
proof -
  let ?tr = "maybe_warn w self (logger INFO (''Screenshot requested: cursor='' @ str_bool include_cursor
                             @ '', file='' @ filename) tr)"
  from assms have e0: "fst (capture_full w (backend self) filename include_cursor []) = Inl e"
    using capture_full_fst [of w "backend self" filename include_cursor tr0] by simp
  then have "fst (capture_full w (backend self) filename include_cursor ?tr) = Inl e"
    using capture_full_fst [of w "backend self" filename include_cursor ?tr] by simp
  moreover from this obtain msg where "e = Exception msg" by (auto dest: capture_full_exn)
  ultimately show ?thesis
    by (cases "capture_full w (backend self) filename include_cursor ?tr")
       (simp add: Screenshot_def logger_def)
qed

lemma ScreenshotWindow_caught:
  assumes "fst (capture_window w (backend self) filename include_cursor include_frame tr0) = Inl e"
  shows "last (snd (ScreenshotWindow w self include_frame include_cursor flash filename tr))
           = Log ERROR (''Window screenshot error: '' @ str_exn e)"
proof -
  let ?tr = "maybe_warn w self (logger INFO (''Window screenshot requested: file='' @ filename) tr)"
  from assms have e0: "fst (capture_window w (backend self) filename include_cursor include_frame []) = Inl e"
    using capture_window_fst [of w "backend self" filename include_cursor include_frame tr0] by simp
  then have "fst (capture_window w (backend self) filename include_cursor include_frame ?tr) = Inl e"
    using capture_window_fst [of w "backend self" filename include_cursor include_frame ?tr] by simp
  moreover from this obtain msg where "e = Exception msg" by (auto dest: capture_window_exn)
  ultimately show ?thesis
    by (cases "capture_window w (backend self) filename include_cursor include_frame ?tr")
       (simp add: ScreenshotWindow_def logger_def)
qed

lemma ScreenshotArea_caught:
  assumes "fst (capture_area w (backend self) filename x y width height tr0) = Inl e"
  shows "last (snd (ScreenshotArea w self x y width height flash filename tr))
           = Log ERROR (''Area screenshot error: '' @ str_exn e)"
proof -
  let ?tr = "maybe_warn w self (logger INFO (''Area screenshot requested: ('' @ str_int x @ '','' @ str_int y
                             @ '') '' @ str_int width @ ''x'' @ str_int height) tr)"
  from assms have e0: "fst (capture_area w (backend self) filename x y width height []) = Inl e"
    using capture_area_fst [of w "backend self" filename x y width height tr0] by simp
  then have "fst (capture_area w (backend self) filename x y width height ?tr) = Inl e"
    using capture_area_fst [of w "backend self" filename x y width height ?tr] by simp
  moreover from this obtain msg where "e = Exception msg" by (auto dest: capture_area_exn)
  ultimately show ?thesis
    by (cases "capture_area w (backend self) filename x y width height ?tr")
       (simp add: ScreenshotArea_def logger_def)
qed

text \<open>
  C6. When the backend's capture raises an exception, each of the three methods
  catches it, puts an error record with the exception's text last into the log and
  returns \<open>(False, filename)\<close>; and none of the three ever lets an exception out,
  whatever the world does.
\<close>

theorem interface_catches_exceptions:
  "(fst (capture_full w (backend self) filename include_cursor tr0) = Inl e \<longrightarrow>
      fst (Screenshot w self include_cursor flash filename tr) = Inr (False, filename)
      \<and> last (snd (Screenshot w self include_cursor flash filename tr))
          = Log ERROR (''Screenshot error: '' @ str_exn e))
   \<and> (fst (capture_window w (backend self) filename include_cursor include_frame tr0) = Inl e \<longrightarrow>
      fst (ScreenshotWindow w self include_frame include_cursor flash filename tr) = Inr (False, filename)
      \<and> last (snd (ScreenshotWindow w self include_frame include_cursor flash filename tr))
          = Log ERROR (''Window screenshot error: '' @ str_exn e))
   \<and> (fst (capture_area w (backend self) filename x y width height tr0) = Inl e \<longrightarrow>
      fst (ScreenshotArea w self x y width height flash filename tr) = Inr (False, filename)
      \<and> last (snd (ScreenshotArea w self x y width height flash filename tr))
          = Log ERROR (''Area screenshot error: '' @ str_exn e))
   \<and> (\<forall>e'. fst (Screenshot w self include_cursor flash filename tr) \<noteq> Inl e'
          \<and> fst (ScreenshotWindow w self include_frame include_cursor flash filename tr) \<noteq> Inl e'
          \<and> fst (ScreenshotArea w self x y width height flash filename tr) \<noteq> Inl e')"
proof -
  have a: "fst (capture_full w (backend self) filename include_cursor []) = Inl e"
    if "fst (capture_full w (backend self) filename include_cursor tr0) = Inl e"
    using that capture_full_fst [of w "backend self" filename include_cursor tr0] by simp
  have b: "fst (capture_window w (backend self) filename include_cursor include_frame []) = Inl e"
    if "fst (capture_window w (backend self) filename include_cursor include_frame tr0) = Inl e"
    using that capture_window_fst [of w "backend self" filename include_cursor include_frame tr0] by simp
  have c: "fst (capture_area w (backend self) filename x y width height []) = Inl e"
    if "fst (capture_area w (backend self) filename x y width height tr0) = Inl e"
    using that capture_area_fst [of w "backend self" filename x y width height tr0] by simp
  show ?thesis
    using a b c Screenshot_caught ScreenshotWindow_caught ScreenshotArea_caught
    by (simp add: Screenshot_result ScreenshotWindow_result ScreenshotArea_result)
qed

theorem interface_catches_exceptions_witness:
  "fst (capture_full bare_world GrimBackend ''/tmp/a.png'' True []) = Inl (Exception ''No such file or directory'')
   \<and> fst (capture_window bare_world GrimBackend ''/tmp/a.png'' True True []) = Inl (Exception ''No such file or directory'')
   \<and> fst (capture_area bare_world GrimBackend ''/tmp/a.png'' 10 20 300 200 []) = Inl (Exception ''No such file or directory'')
   \<and> fst (Screenshot bare_world (ScreenshotInterface GrimBackend False) True False ''/tmp/a.png'' [])
        = Inr (False, ''/tmp/a.png'')
   \<and> fst (ScreenshotWindow bare_world (ScreenshotInterface GrimBackend False) True True False ''/tmp/a.png'' [])
        = Inr (False, ''/tmp/a.png'')
   \<and> fst (ScreenshotArea bare_world (ScreenshotInterface GrimBackend False) 10 20 300 200 False ''/tmp/a.png'' [])
        = Inr (False, ''/tmp/a.png'')
   \<and> last (snd (Screenshot bare_world (ScreenshotInterface GrimBackend False) True False ''/tmp/a.png'' []))
        = Log ERROR ''Screenshot error: No such file or directory''"
  using interface_catches_exceptions [of bare_world "ScreenshotInterface GrimBackend False"
          "''/tmp/a.png''" True "[]" "Exception ''No such file or directory''" False "[]" True 10 20 300 200]
  by (simp add: bare_world_def ScreenshotInterface_def run_cmd_def)

text \<open>
  C7. Two calls that differ in \<open>flash\<close> only return the same pair and leave the same
  trace, for each of the three methods.
\<close>

theorem flash_unused:
  "Screenshot w self include_cursor flash filename tr
     = Screenshot w self include_cursor flash' filename tr
   \<and> ScreenshotWindow w self include_frame include_cursor flash filename tr
     = ScreenshotWindow w self include_frame include_cursor flash' filename tr
   \<and> ScreenshotArea w self x y width height flash filename tr
     = ScreenshotArea w self x y width height flash' filename tr"
  by (simp add: Screenshot_def ScreenshotWindow_def ScreenshotArea_def)

text \<open>
  C9. The second component of the result of each method is the \<open>filename\<close> argument,
  whether the capture succeeded, failed or raised.
\<close>

theorem filename_echoed:
  "(\<exists>success. fst (Screenshot w self include_cursor flash filename tr) = Inr (success, filename))
   \<and> (\<exists>success. fst (ScreenshotWindow w self include_frame include_cursor flash filename tr)
                  = Inr (success, filename))
   \<and> (\<exists>success. fst (ScreenshotArea w self x y width height flash filename tr)
                  = Inr (success, filename))"
  by (simp add: Screenshot_result ScreenshotWindow_result ScreenshotArea_result)

text \<open>
  C4. With the grim backend, \<open>ScreenshotArea(10, 20, 300, 200, false, "/tmp/a.png")\<close>
  runs \<open>grim -g "10,20 300x200" /tmp/a.png\<close>, and returns \<open>(True, "/tmp/a.png")\<close>
  when that run exits with status 0. For any rectangle the geometry argument is
  \<open>x,y WxH\<close> with the four integers in decimal.
\<close>

theorem grim_ScreenshotArea:
  assumes "backend self = GrimBackend"
  shows "Run [''grim'', ''-g'', ''10,20 300x200'', ''/tmp/a.png'']
           \<in> set (snd (ScreenshotArea w self 10 20 300 200 False ''/tmp/a.png'' tr))
     \<and> (subprocess_run w [''grim'', ''-g'', ''10,20 300x200'', ''/tmp/a.png''] = Returncode 0 \<longrightarrow>
          fst (ScreenshotArea w self 10 20 300 200 False ''/tmp/a.png'' tr) = Inr (True, ''/tmp/a.png''))
     \<and> Run [''grim'', ''-g'',
             str_int x @ '','' @ str_int y @ '' '' @ str_int width @ ''x'' @ str_int height, filename]
           \<in> set (snd (ScreenshotArea w self x y width height flash filename tr))"
  using assms
  by (simp add: ScreenshotArea_def run_cmd_def str_int_examples Let_def logger_def
           split: completed.splits exn.splits)

theorem grim_ScreenshotArea_witness:
  "backend (ScreenshotInterface GrimBackend False) = GrimBackend
   \<and> subprocess_run quiet_world [''grim'', ''-g'', ''10,20 300x200'', ''/tmp/a.png''] = Returncode 0
   \<and> fst (ScreenshotArea quiet_world (ScreenshotInterface GrimBackend False) 10 20 300 200 False
             ''/tmp/a.png'' []) = Inr (True, ''/tmp/a.png'')
   \<and> Run [''grim'', ''-g'', ''10,20 300x200'', ''/tmp/a.png'']
           \<in> set (snd (ScreenshotArea quiet_world (ScreenshotInterface GrimBackend False)
                          10 20 300 200 False ''/tmp/a.png'' []))"
  using grim_ScreenshotArea [of "ScreenshotInterface GrimBackend False" quiet_world "[]"]
  by (simp add: quiet_world_def ScreenshotInterface_def)

subsection \<open>Starting without a backend\<close>

text \<open>
  C10. When detection finds no backend, \<open>start\<close> returns \<open>False\<close>, leaves every
  field of the bridge as it was (bus, idle monitor and running flag included) and adds
  nothing but log records to the trace: no bus is created or connected, nothing is
  exported, no name is requested, no process is spawned.
\<close>

theorem start_without_backend:
  assumes "fst (detect_backend w (backend_name self) tr) = None"
  shows "fst (start w now self tr) = Inr False
     \<and> fst (snd (start w now self tr)) = self
     \<and> (\<exists>logs. snd (snd (start w now self tr)) = tr @ logs \<and> list_all is_log logs)"
proof -
  obtain tr0 where d: "detect_backend w (backend_name self) tr = (None, tr0)"
    using assms by (cases "detect_backend w (backend_name self) tr") auto
  from detect_backend_in_logs [of BACKENDS w "backend_name self" tr] d
  obtain logs where l: "tr0 = tr @ logs" "list_all is_log logs"
    by (auto simp: detect_backend_def)
  have "snd (snd (start w now self tr))
          = tr @ (logs @ [Log ERROR ''No screenshot backend available!'',
                          Log ERROR ''Install one of: spectacle (KDE), grim (wlroots)''])"
    using d l by (simp add: start_def logger_def)
  moreover have "list_all is_log (logs @ [Log ERROR ''No screenshot backend available!'',
                          Log ERROR ''Install one of: spectacle (KDE), grim (wlroots)''])"
    using l by simp
  ultimately have "\<exists>logs. snd (snd (start w now self tr)) = tr @ logs \<and> list_all is_log logs"
    by blast
  with d show ?thesis by (simp add: start_def)
qed

theorem start_without_backend_witness:
  "fst (detect_backend bare_world (backend_name (ScreenshotBridge (Some ''grim'') False True)) []) = None
   \<and> fst (start bare_world 0 (ScreenshotBridge (Some ''grim'') False True) []) = Inr False
   \<and> fst (snd (start bare_world 0 (ScreenshotBridge (Some ''grim'') False True) []))
       = \<lparr>backend_name = Some ''grim'', bridge_warn_before = False, enable_idle = True,
          bus = None, idle_monitor = None, running = False\<rparr>"
  using start_without_backend [of bare_world "ScreenshotBridge (Some ''grim'') False True" "[]" 0]
  by (simp add: bare_world_def ScreenshotBridge_def detect_backend_def detect_backend_in_def
        BACKENDS_def)

subsection \<open>The idle loop\<close>

lemma line_examples:
  "line_is_resume resume_line = Inr True"
  "line_is_resume timeout_line = Inr False"
  by (simp_all add: line_is_resume_def resume_line_def timeout_line_def strip_def isspace_def)

lemma line_is_resume_iff:
  "line_is_resume line = Inr True \<longleftrightarrow>
     (\<exists>txt. utf8_decode (map of_char line) = Some txt \<and> strip txt = map of_char ''resume'')"
  by (auto simp: line_is_resume_def split: option.splits)

lemma idle_loop_lines_append:
  "list_all (\<lambda>(l, t). \<not> isl (line_is_resume l)) pre \<Longrightarrow>
   idle_loop_lines (pre @ rest) self tr
     = idle_loop_lines rest (fst (idle_loop_lines pre self tr)) (snd (idle_loop_lines pre self tr))"
proof (induction pre arbitrary: self)
  case Nil
  then show ?case by simp
next
  case (Cons a pre)
  obtain l t where a: "a = (l, t)" by (cases a)
  with Cons.prems obtain r where r: "line_is_resume l = Inr r"
    by (cases "line_is_resume l") auto
  from Cons.prems have p: "list_all (\<lambda>(l, t). \<not> isl (line_is_resume l)) pre" by simp
  show ?case using a r Cons.IH [OF p] by (cases r) simp_all
qed

lemma idle_loop_lines_single:
  "last_active (fst (idle_loop_lines [(line, now)] self tr))
     = (if line_is_resume line = Inr True then now else last_active self)"
  by (cases "line_is_resume line") (auto split: bool.splits)

text \<open>
  C5. In the read loop of a monitor whose process has a standard output, take any line
  the loop gets to (every line before it decoded): after the line has been handled the
  last-activity timestamp is the clock's reading if the decoded, stripped line is
  \<open>resume\<close>, and it is what it was before the line otherwise. A \<open>timeout\<close> line is
  not a \<open>resume\<close> line.
\<close>

theorem idle_loop_resume_only:
  assumes "monitor_process self = Some p" and "has_stdout p"
      and "list_all (\<lambda>(l, t). \<not> isl (line_is_resume l)) pre"
  shows "last_active (fst (idle_loop (pre @ [(line, now)]) self tr))
           = (if line_is_resume line = Inr True then now
              else last_active (fst (idle_loop pre self tr)))
     \<and> line_is_resume timeout_line = Inr False
     \<and> line_is_resume resume_line = Inr True"
proof -
  have "idle_loop ls self tr = idle_loop_lines ls self tr" for ls
    using assms(1,2) by (simp add: idle_loop_def)
  with idle_loop_lines_append [OF assms(3), of "[(line, now)]" self tr]
    idle_loop_lines_single line_examples
  show ?thesis by simp
qed

theorem idle_loop_resume_only_witness:
  "monitor_process ((IdleMonitorInterface 0)\<lparr>monitor_process := Some (Process True)\<rparr>)
     = Some (Process True)
   \<and> has_stdout (Process True)
   \<and> list_all (\<lambda>(l, t). \<not> isl (line_is_resume l)) [(resume_line, 7)]
   \<and> last_active (fst (idle_loop [(resume_line, 7), (timeout_line, 9)]
                        ((IdleMonitorInterface 0)\<lparr>monitor_process := Some (Process True)\<rparr>) []))
       = 7"
  using idle_loop_resume_only [of "(IdleMonitorInterface 0)\<lparr>monitor_process := Some (Process True)\<rparr>"
          "Process True" "[(resume_line, 7)]" timeout_line 9 "[]"]
  by (simp add: line_examples IdleMonitorInterface_def idle_loop_def)

subsection \<open>Stopping twice\<close>

lemma stop_task_returns:
  "stop_task w m tr = (None, tr') \<Longrightarrow>
     tr' = tr @ (if monitor_task m = None then [] else [TaskCancel, TaskAwait])"
  by (auto simp: stop_task_def call_def split: option.splits exn.splits)

lemma stop_process_returns:
  "stop_process w m tr = (None, tr') \<Longrightarrow>
     tr' = tr @ (if monitor_process m = None then [] else [ProcTerminate, ProcWait])"
  by (auto simp: stop_process_def call_def split: option.splits)

lemma stop_monitoring_returns:
  "stop_monitoring w m tr = (None, tr') \<Longrightarrow>
     tr' = tr @ (if monitor_task m = None then [] else [TaskCancel, TaskAwait])
              @ (if monitor_process m = None then [] else [ProcTerminate, ProcWait])"
proof -
  assume a: "stop_monitoring w m tr = (None, tr')"
  obtain r t1 where t: "stop_task w m tr = (r, t1)" by (cases "stop_task w m tr")
  with a have r: "r = None" and p: "stop_process w m t1 = (None, tr')"
    by (auto simp: stop_monitoring_def split: option.splits)
  from stop_task_returns [of w m tr t1] t r stop_process_returns [OF p]
  show ?thesis by simp
qed

lemma stop_monitoring_unstarted:
  "monitor_task m = None \<Longrightarrow> monitor_process m = None \<Longrightarrow> stop_monitoring w m tr = (None, tr)"
  by (simp add: stop_monitoring_def stop_task_def stop_process_def)

lemma stop_fields: "fst (snd (stop w self tr)) = self\<lparr>running := False\<rparr>"
  by (simp add: stop_def Let_def split: prod.splits option.splits)

lemma stop_returns:
  assumes "stop w self tr = (None, self', tr')"
  shows "tr' = tr @ teardown_calls self"
proof -
  let ?s = "self\<lparr>running := False\<rparr>"
  obtain r1 t1 where i: "stop_idle w ?s tr = (r1, t1)" by (cases "stop_idle w ?s tr")
  obtain r2 t2 where b: "stop_bus w ?s t1 = (r2, t2)" by (cases "stop_bus w ?s t1")
  from assms i b have r: "r1 = None" "r2 = None" and e: "tr' = logger INFO ''Bridge stopped'' t2"
    by (auto simp: stop_def Let_def split: option.splits)
  have t1: "t1 = tr @ (case idle_monitor self of None \<Rightarrow> []
      | Some m \<Rightarrow> (if monitor_task m = None then [] else [TaskCancel, TaskAwait])
          @ (if monitor_process m = None then [] else [ProcTerminate, ProcWait]))"
  proof (cases "idle_monitor self")
    case None
    with i show ?thesis by (simp add: stop_idle_def)
  next
    case (Some m)
    with i r have "stop_monitoring w m tr = (None, t1)" by (simp add: stop_idle_def)
    from stop_monitoring_returns [OF this] Some show ?thesis by simp
  qed
  have t2: "t2 = t1 @ (if bus self = None then [] else [BusDisconnect])"
    using b by (auto simp: stop_bus_def call_def split: option.splits)
  show ?thesis using e t1 t2 by (simp add: teardown_calls_def logger_def)
qed

lemma teardown_calls_running: "teardown_calls (self\<lparr>running := r\<rparr>) = teardown_calls self"
  by (simp add: teardown_calls_def)

lemma count_teardown:
  "count_list (teardown_calls self) BusDisconnect = (if bus self = None then 0 else 1)"
  by (simp add: teardown_calls_def split: option.splits)

text \<open>
  Two calls of \<open>stop\<close> that both return, in any world: no field changes after the
  first, and the second makes every teardown call of the first once more.
\<close>

lemma stop_repeats:
  assumes "stop w self tr = (None, self1, tr1)"
      and "stop w self1 tr1 = (None, self2, tr2)"
  shows "self1 = self\<lparr>running := False\<rparr> \<and> self2 = self1
     \<and> tr2 = tr @ teardown_calls self @ teardown_calls self
     \<and> count_list tr2 BusDisconnect
         = count_list tr BusDisconnect + (if bus self = None then 0 else 2)"
proof -
  from assms(1) stop_fields [of w self tr] have s1: "self1 = self\<lparr>running := False\<rparr>" by simp
  from assms(2) stop_fields [of w self1 tr1] have s2: "self2 = self1" using s1 by simp
  from stop_returns [OF assms(1)] have t1: "tr1 = tr @ teardown_calls self" .
  from stop_returns [OF assms(2)] s1 t1
  have t2: "tr2 = tr @ teardown_calls self @ teardown_calls self"
    by (simp add: teardown_calls_running)
  then have "count_list tr2 BusDisconnect
               = count_list tr BusDisconnect + (if bus self = None then 0 else 2)"
    by (simp add: count_teardown)
  with s1 s2 t2 show ?thesis by blast
qed

lemma asyncio_started_value:
  "asyncio_started = (Inr True,
     \<lparr>backend_name = None, bridge_warn_before = False, enable_idle = True,
      bus = Some MessageBus,
      idle_monitor = Some \<lparr>last_active = 0, monitor_process = Some (Process True),
                            monitor_task = Some Task\<rparr>,
      running = True\<rparr>,
     [Log INFO ''Auto-detected backend: spectacle'', BusCreate, BusConnect,
      Log INFO ''Connected to DBus session bus'',
      BusExport ''/org/gnome/Shell/Screenshot'',
      BusRequestName ''org.gnome.Shell.Screenshot'',
      Log INFO ''Registered org.gnome.Shell.Screenshot'',
      Spawn swayidle_argv, CreateTask, Log INFO ''Started swayidle idle monitor'',
      BusExport ''/org/gnome/Mutter/IdleMonitor/Core'',
      BusRequestName ''org.gnome.Mutter.IdleMonitor'',
      Log INFO ''Registered org.gnome.Mutter.IdleMonitor'',
      Log INFO ''Bridge started with backend: spectacle''])"
  by (simp add: asyncio_started_def start_def start_idle_def start_finish_def start_monitoring_def
        detect_backend_def detect_backend_in_def BACKENDS_def asyncio_world_def
        ScreenshotBridge_def IdleMonitorInterface_def call_def logger_def Let_def)

lemma asyncio_stopped_once_value:
  "asyncio_stopped_once = (None, (fst (snd asyncio_started))\<lparr>running := False\<rparr>,
     snd (snd asyncio_started)
       @ [TaskCancel, TaskAwait, ProcTerminate, ProcWait, BusDisconnect,
          Log INFO ''Bridge stopped''])"
  by (simp add: asyncio_stopped_once_def asyncio_started_value stop_def stop_idle_def stop_bus_def
        stop_monitoring_def stop_task_def stop_process_def asyncio_world_def call_def logger_def)

lemma asyncio_stopped_twice_value:
  "asyncio_stopped_twice
     = (Some (Exception ''ProcessLookupError''), (fst (snd asyncio_started))\<lparr>running := False\<rparr>,
        snd (snd asyncio_started)
          @ [TaskCancel, TaskAwait, ProcTerminate, ProcWait, BusDisconnect,
             Log INFO ''Bridge stopped'',
             TaskCancel, TaskAwait, ProcTerminate])"
  by (simp add: asyncio_stopped_twice_def asyncio_stopped_once_value asyncio_started_value
        stop_def stop_idle_def stop_bus_def stop_monitoring_def stop_task_def stop_process_def
        asyncio_world_def call_def logger_def)

lemma noidle_started_value:
  "noidle_started = (Inr True,
     \<lparr>backend_name = None, bridge_warn_before = False, enable_idle = True,
      bus = Some MessageBus,
      idle_monitor = Some \<lparr>last_active = 0, monitor_process = None, monitor_task = None\<rparr>,
      running = True\<rparr>,
     [Log INFO ''Auto-detected backend: spectacle'', BusCreate, BusConnect,
      Log INFO ''Connected to DBus session bus'',
      BusExport ''/org/gnome/Shell/Screenshot'',
      BusRequestName ''org.gnome.Shell.Screenshot'',
      Log INFO ''Registered org.gnome.Shell.Screenshot'',
      Log WARNING ''No idle monitor available, idle time will not be tracked'',
      BusExport ''/org/gnome/Mutter/IdleMonitor/Core'',
      BusRequestName ''org.gnome.Mutter.IdleMonitor'',
      Log INFO ''Registered org.gnome.Mutter.IdleMonitor'',
      Log INFO ''Bridge started with backend: spectacle''])"
  by (simp add: noidle_started_def start_def start_idle_def start_finish_def start_monitoring_def
        no_idle_monitor_def detect_backend_def detect_backend_in_def BACKENDS_def noidle_world_def
        ScreenshotBridge_def IdleMonitorInterface_def call_def logger_def Let_def)

lemma noidle_stopped_once_value:
  "noidle_stopped_once = (None, (fst (snd noidle_started))\<lparr>running := False\<rparr>,
     snd (snd noidle_started) @ [BusDisconnect, Log INFO ''Bridge stopped''])"
  by (simp add: noidle_stopped_once_def noidle_started_value stop_def stop_idle_def stop_bus_def
        stop_monitoring_def stop_task_def stop_process_def noidle_world_def call_def logger_def)

lemma noidle_stopped_twice_value:
  "noidle_stopped_twice = (None, (fst (snd noidle_started))\<lparr>running := False\<rparr>,
     snd (snd noidle_started)
       @ [BusDisconnect, Log INFO ''Bridge stopped'', BusDisconnect, Log INFO ''Bridge stopped''])"
  by (simp add: noidle_stopped_twice_def noidle_stopped_once_value noidle_started_value
        stop_def stop_idle_def stop_bus_def stop_monitoring_def stop_task_def stop_process_def
        noidle_world_def call_def logger_def)

text \<open>
  C2. A second \<open>stop\<close> right after a first that returned should do nothing, raise
  nothing and leave the bus disconnected once. The code does neither. With swayidle
  running (\<open>asyncio_world\<close>) the bridge starts, the first \<open>stop\<close> returns, and the
  second terminates the reaped process again: it leaves with \<open>ProcessLookupError\<close>
  after cancel, await and terminate, before it gets to the bus. Without swayidle
  (\<open>noidle_world\<close>) both calls return, and the second has called \<open>disconnect\<close> and has
  logged once more: two disconnects in the trace. In both runs the bridge keeps its bus
  and its idle monitor after the first \<open>stop\<close>.
\<close>

theorem stop_twice_fails:
  "fst asyncio_started = Inr True
   \<and> fst asyncio_stopped_once = None
   \<and> bus (fst (snd asyncio_stopped_once)) = Some MessageBus
   \<and> idle_monitor (fst (snd asyncio_stopped_once)) = idle_monitor (fst (snd asyncio_started))
   \<and> fst asyncio_stopped_twice = Some (Exception ''ProcessLookupError'')
   \<and> snd (snd asyncio_stopped_twice)
       = snd (snd asyncio_stopped_once) @ [TaskCancel, TaskAwait, ProcTerminate]
   \<and> fst noidle_started = Inr True
   \<and> fst noidle_stopped_once = None
   \<and> bus (fst (snd noidle_stopped_once)) = Some MessageBus
   \<and> fst noidle_stopped_twice = None
   \<and> snd (snd noidle_stopped_twice)
       = snd (snd noidle_stopped_once) @ [BusDisconnect, Log INFO ''Bridge stopped'']
   \<and> count_list (snd (snd noidle_stopped_twice)) BusDisconnect = 2"
  by (simp add: asyncio_stopped_twice_value asyncio_stopped_once_value asyncio_started_value
        noidle_stopped_twice_value noidle_stopped_once_value noidle_started_value)

end
